theory Spec2Isabelle
  imports Main
begin

section \<open>Reference generator (utils/referenceGenerator.js)\<close>

text \<open>
  The regular expression \<^verbatim>\<open>/^REF[0-9]{8}-[A-Z0-9]{6}$/\<close> is used by
  \<^verbatim>\<open>isValidReference\<close>, by \<^verbatim>\<open>Transaction.validate\<close> and by the CHECK constraint
  \<^verbatim>\<open>valid_reference\<close> of the \<^verbatim>\<open>transactions\<close> table. It accepts exactly the strings of
  18 characters made of \<^verbatim>\<open>REF\<close>, eight digits, a dash and six characters of
  \<^verbatim>\<open>[A-Z0-9]\<close>; the anchors allow nothing before or after.
\<close>

definition isDigit :: "char \<Rightarrow> bool" where
  "isDigit c = (c \<in> set ''0123456789'')"

definition isUpperAlnum :: "char \<Rightarrow> bool" where
  "isUpperAlnum c = (c \<in> set ''ABCDEFGHIJKLMNOPQRSTUVWXYZ0123456789'')"

definition isValidReference :: "string \<Rightarrow> bool" where
  "isValidReference r =
     (length r = 18 \<and> take 3 r = ''REF'' \<and> list_all isDigit (take 8 (drop 3 r)) \<and>
      take 1 (drop 11 r) = ''-'' \<and> list_all isUpperAlnum (drop 12 r))"

text \<open>
  \<^verbatim>\<open>String.prototype.toUpperCase\<close> on one character; the characters that reach it
  here are those of a base-36 numeral, so only the ASCII letters matter.
\<close>

definition toUpperCase_char :: "char \<Rightarrow> char" where
  "toUpperCase_char c =
     (case map_of (zip ''abcdefghijklmnopqrstuvwxyz'' ''ABCDEFGHIJKLMNOPQRSTUVWXYZ'') c of
        Some u \<Rightarrow> u
      | None \<Rightarrow> c)"

text \<open>
  \<^verbatim>\<open>generateReference\<close> reads the clock and the random generator. Both readings are
  parameters: \<open>isoStr\<close> is what \<^verbatim>\<open>now.toISOString()\<close> returns (for a year from 0000
  to 9999 the 24 characters \<^verbatim>\<open>YYYY-MM-DDTHH:mm:ss.sssZ\<close>) and \<open>rnd\<close> is what
  \<^verbatim>\<open>Math.random().toString(36)\<close> returns: \<^verbatim>\<open>0\<close>, or \<^verbatim>\<open>0.\<close> followed by the base-36
  digits of the draw, as many as the draw has (\<^verbatim>\<open>0.5\<close> gives \<^verbatim>\<open>0.i\<close>).
  \<^verbatim>\<open>slice(0, 10)\<close> is \<open>take 10\<close>, \<^verbatim>\<open>replace(/-/g, '')\<close> removes every dash and
  \<^verbatim>\<open>substring(2, 8)\<close> is \<open>take 6 \<circ> drop 2\<close>, shorter when the string is.
\<close>

definition generateReference :: "string \<Rightarrow> string \<Rightarrow> string" where
  "generateReference isoStr rnd =
     (let dateStr = filter (\<lambda>c. c \<noteq> CHR ''-'') (take 10 isoStr);
          randomStr = map toUpperCase_char (take 6 (drop 2 rnd))
      in ''REF'' @ dateStr @ ''-'' @ randomStr)"

section \<open>Data model (database/schema.sql, models)\<close>

datatype account_type = SAVINGS | CURRENT | SALARY

datatype account_status = ACTIVE | FROZEN | CLOSED

datatype transaction_type = DEPOSIT | WITHDRAWAL | TRANSFER_IN | TRANSFER_OUT

text \<open>
  Money is \<^verbatim>\<open>DECIMAL(15,2)\<close> in the schema. It is modelled as an integer number of
  hundredths; a value fits the column when its absolute value is below \<open>10^13\<close>
  units, that is \<open>10^15\<close> hundredths. The JavaScript side holds the same values as
  doubles; the only decision taken on them is the sign of \<^verbatim>\<open>current_balance - amount\<close>,
  which a double subtraction of two such values gives exactly.
\<close>

type_synonym money = int

definition fits_decimal_15_2 :: "money \<Rightarrow> bool" where
  "fits_decimal_15_2 v = (\<bar>v\<bar> < 10 ^ 15)"

text \<open>
  A row of \<^verbatim>\<open>account_projections\<close>; the primary key \<^verbatim>\<open>account_id\<close> is the key of
  the table below. The columns \<^verbatim>\<open>customer_id\<close>, \<^verbatim>\<open>currency\<close> and \<^verbatim>\<open>last_updated\<close>
  take no part in the operations modelled here.
\<close>

record AccountProjection =
  account_number :: string
  account_type :: account_type
  current_balance :: money
  status :: account_status

text \<open>
  The class \<^verbatim>\<open>Transaction\<close>, also a row of \<^verbatim>\<open>transactions\<close>. An object built from
  request data has no \<^verbatim>\<open>txn_id\<close> and no \<^verbatim>\<open>balance_after\<close>; the row returned by
  \<^verbatim>\<open>INSERT ... RETURNING *\<close> has both. \<^verbatim>\<open>txn_type\<close> is a string in the source and
  every caller passes one of the four literals.
\<close>

record Transaction =
  txn_id :: "nat option"
  account_id :: int
  amount :: money
  txn_type :: transaction_type
  counterparty :: "string option"
  reference :: string
  description :: "string option"
  balance_after :: "money option"

text \<open>The request of a transfer (\<^verbatim>\<open>amount\<close> and \<^verbatim>\<open>description\<close> in the source).\<close>

record TransferData =
  from_account_id :: int
  to_account_id :: int
  transfer_amount :: money
  transfer_description :: "string option"

text \<open>What \<^verbatim>\<open>processTransfer\<close> returns (its constant field \<^verbatim>\<open>success: true\<close> left out).\<close>

record TransferResult =
  transfer_reference :: string
  debit_transaction :: Transaction
  credit_transaction :: Transaction
  from_account_new_balance :: money
  to_account_new_balance :: money

text \<open>What \<^verbatim>\<open>processDeposit\<close> and \<^verbatim>\<open>processWithdrawal\<close> return.\<close>

record TransactionResult =
  transaction :: Transaction
  new_balance :: money

text \<open>
  A row of \<^verbatim>\<open>idempotency_keys\<close>; the unique column \<^verbatim>\<open>key\<close> is the key of the table
  below. \<^verbatim>\<open>request_body\<close> and \<^verbatim>\<open>response_body\<close> are nullable \<^verbatim>\<open>JSONB\<close> columns,
  which the driver hands over as objects already parsed. Times are milliseconds since
  the epoch.
\<close>

record IdempotencyKey =
  key_txn_id :: "nat option"
  request_body :: "TransferData option"
  response_body :: "TransferResult option"
  expires_at :: int

text \<open>
  A statement sent on the client of a \<^verbatim>\<open>db.transaction\<close>.
\<close>

datatype statement =
    BEGIN
  | COMMIT
  | ROLLBACK
  | SELECT_FOR_UPDATE int            \<comment> \<open>the account id\<close>
  | INSERT_INTO_transactions string  \<comment> \<open>the reference\<close>

text \<open>
  The database. The three tables hold what is committed. \<open>txn_id_seq\<close> is the sequence
  behind \<^verbatim>\<open>txn_id BIGSERIAL\<close>. \<open>lock_log\<close> lists the rows locked by
  \<^verbatim>\<open>SELECT ... FOR UPDATE\<close>, in the order in which the locks were taken. \<open>clients\<close>
  counts the clients that \<^verbatim>\<open>db.transaction\<close> has handed out, each the connection of
  one atomic unit; \<open>uncommitted\<close> holds the rows that the units still open have
  inserted, each with the client of its unit, and \<open>statement_log\<close> the statements
  sent on these clients, each with its client, in order.
\<close>

record db =
  account_projections :: "int \<rightharpoonup> AccountProjection"
  transactions :: "Transaction list"
  idempotency_keys :: "string \<rightharpoonup> IdempotencyKey"
  txn_id_seq :: nat
  lock_log :: "int list"
  clients :: nat
  uncommitted :: "(nat \<times> Transaction) list"
  statement_log :: "(nat \<times> statement) list"

text \<open>
  What one call reads from its environment: the clock, the two readings of
  \<open>generateReference\<close>, and \<open>dayAhead\<close>, the time at which the local clock shows the
  present hour plus 24 (24 hours after \<open>now\<close>, or 23 or 25 across a change of the
  local clock).
\<close>

record env =
  now :: int
  isoString :: string
  random36 :: string
  dayAhead :: int

datatype validation_error =
    InvalidAccountId      \<comment> \<open>Valid account_id is required\<close>
  | AmountNotPositive     \<comment> \<open>Amount must be positive\<close>
  | InvalidReference      \<comment> \<open>Reference must follow pattern REF[YYYYMMDD]-[6CHARS]\<close>
  | KeyRequired           \<comment> \<open>Idempotency key is required\<close>
  | KeyTooLong            \<comment> \<open>Idempotency key must be less than 255 characters\<close>

datatype db_error =
    UniqueViolation       \<comment> \<open>code 23505\<close>
  | ForeignKeyViolation   \<comment> \<open>code 23503\<close>
  | CheckViolation        \<comment> \<open>code 23514\<close>
  | NumericOverflow       \<comment> \<open>a value does not fit DECIMAL(15,2)\<close>
  | StringTooLong         \<comment> \<open>a value does not fit VARCHAR(255)\<close>

datatype error =
    AccountNotFound               \<comment> \<open>Account not found\<close>
  | AccountNotActive              \<comment> \<open>Account is not active\<close>
  | InsufficientBalance           \<comment> \<open>Insufficient balance - no overdraft allowed for this account type\<close>
  | SourceAccountNotFound         \<comment> \<open>Source account not found\<close>
  | DestinationAccountNotFound    \<comment> \<open>Destination account not found\<close>
  | SourceAccountNotActive        \<comment> \<open>Source account is not active\<close>
  | DestinationAccountNotActive   \<comment> \<open>Destination account is not active\<close>
  | TransferFailed error          \<comment> \<open>Transfer failed: reason\<close>
  | AccountProjectionNotFound     \<comment> \<open>Account projection not found\<close>
  | IdempotencyKeyExpired         \<comment> \<open>Idempotency key has expired\<close>
  | IdempotencyKeyExists          \<comment> \<open>Idempotency key already exists\<close>
  | IdempotencyKeyNotFound        \<comment> \<open>Idempotency key not found\<close>
  | ValidationFailed "validation_error list"   \<comment> \<open>Validation failed: errors joined\<close>
  | ReferenceAlreadyExists        \<comment> \<open>Transaction reference already exists\<close>
  | DatabaseError db_error        \<comment> \<open>an error of the database, rethrown as it is\<close>
  | SyntaxError                   \<comment> \<open>JSON.parse of a value that is not JSON text\<close>
  | TypeError                     \<comment> \<open>a property read on undefined\<close>

section \<open>AccountProjection (models/AccountProjection.js)\<close>

definition isActive :: "AccountProjection \<Rightarrow> bool" where
  "isActive a = (status a = ACTIVE)"

definition allowsOverdraft :: "AccountProjection \<Rightarrow> bool" where
  "allowsOverdraft a = (account_type a = CURRENT)"

text \<open>The object \<^verbatim>\<open>{allowed, reason, newBalance}\<close> of \<^verbatim>\<open>canDebit\<close> and \<^verbatim>\<open>canCredit\<close>.\<close>

datatype check_result = Allowed money | Denied error

definition canDebit :: "AccountProjection \<Rightarrow> money \<Rightarrow> check_result" where
  "canDebit a amt =
     (if \<not> isActive a then Denied AccountNotActive
      else let newBalance = current_balance a - amt
           in if newBalance < 0 \<and> \<not> allowsOverdraft a then Denied InsufficientBalance
              else Allowed newBalance)"

definition canCredit :: "AccountProjection \<Rightarrow> money \<Rightarrow> check_result" where
  "canCredit a amt =
     (if \<not> isActive a then Denied AccountNotActive
      else Allowed (current_balance a + amt))"

section \<open>The database (database/schema.sql, database/connection.js)\<close>

text \<open>
  The trigger function \<^verbatim>\<open>update_account_balance\<close>, run BEFORE INSERT for each row of
  \<^verbatim>\<open>transactions\<close>: it moves the balance of the row's account by the amount, up for
  a credit type and down for a debit type (\<open>trigger_balance\<close>), and writes the balance
  it then reads into \<^verbatim>\<open>NEW.balance_after\<close>. With no row for the account the UPDATE
  changes nothing and the SELECT INTO leaves NULL. The new balance is stored in a
  \<^verbatim>\<open>DECIMAL(15,2)\<close> column.
\<close>

definition trigger_balance :: "Transaction \<Rightarrow> AccountProjection \<Rightarrow> money" where
  "trigger_balance NEW a =
     (if txn_type NEW \<in> {DEPOSIT, TRANSFER_IN} then current_balance a + amount NEW
      else if txn_type NEW \<in> {WITHDRAWAL, TRANSFER_OUT} then current_balance a - amount NEW
      else current_balance a)"

definition update_account_balance :: "Transaction \<Rightarrow> db \<Rightarrow> db_error + (Transaction \<times> db)" where
  "update_account_balance NEW s =
     (case account_projections s (account_id NEW) of
        None \<Rightarrow> Inr (NEW\<lparr>balance_after := None\<rparr>, s)
      | Some a \<Rightarrow>
          (let b = trigger_balance NEW a
           in if \<not> fits_decimal_15_2 b then Inl NumericOverflow
              else Inr (NEW\<lparr>balance_after := Some b\<rparr>,
                        s\<lparr>account_projections :=
                            (account_projections s)(account_id NEW \<mapsto> a\<lparr>current_balance := b\<rparr>)\<rparr>)))"

text \<open>
  A value stored in a \<^verbatim>\<open>VARCHAR(n)\<close> column: a string of at most \<open>n\<close> characters is
  stored as it is, a longer one whose characters beyond the first \<open>n\<close> are all spaces
  is cut to \<open>n\<close> characters, and any other is refused.
\<close>

definition fit_varchar :: "nat \<Rightarrow> string \<Rightarrow> string option" where
  "fit_varchar n v =
     (if length v \<le> n then Some v
      else if list_all (\<lambda>c. c = CHR '' '') (drop n v) then Some (take n v)
      else None)"

text \<open>The same for a nullable column: NULL is stored as it is.\<close>

definition fit_varchar_option :: "nat \<Rightarrow> string option \<Rightarrow> string option option" where
  "fit_varchar_option n v =
     (case v of
        None \<Rightarrow> Some None
      | Some c \<Rightarrow> map_option Some (fit_varchar n c))"

text \<open>
  The statement \<^verbatim>\<open>INSERT INTO transactions (...) VALUES (...) RETURNING *\<close>, on the
  tables as the session that sends it sees them. The values are fitted to their columns
  first: \<^verbatim>\<open>amount\<close> to \<^verbatim>\<open>DECIMAL(15,2)\<close>, \<^verbatim>\<open>counterparty\<close> to \<^verbatim>\<open>VARCHAR(255)\<close> and
  \<^verbatim>\<open>reference\<close> to \<^verbatim>\<open>VARCHAR(50)\<close>; a value that does not fit fails the statement
  before the sequence is read. Then the sequence gives the \<^verbatim>\<open>txn_id\<close> (and keeps the
  value it gave when the statement fails later); the trigger runs; then the CHECK
  constraints \<^verbatim>\<open>positive_amount\<close> and \<^verbatim>\<open>valid_reference\<close>, the unique index on
  \<^verbatim>\<open>reference\<close> and the foreign key to \<^verbatim>\<open>account_projections\<close> are checked. A
  statement that fails leaves the tables as they were, the trigger's update included.
  \<^verbatim>\<open>description\<close> is \<^verbatim>\<open>TEXT\<close> and \<^verbatim>\<open>account_id\<close> is taken to fit \<^verbatim>\<open>BIGINT\<close>.
\<close>

definition insert_transaction :: "Transaction \<Rightarrow> db \<Rightarrow> (db_error + Transaction) \<times> db" where
  "insert_transaction t s =
     (if \<not> fits_decimal_15_2 (amount t) then (Inl NumericOverflow, s)
      else
        (case (fit_varchar_option 255 (counterparty t), fit_varchar 50 (reference t)) of
           (Some cparty, Some ref) \<Rightarrow>
             (let s0 = s\<lparr>txn_id_seq := Suc (txn_id_seq s)\<rparr>;
                  NEW = t\<lparr>txn_id := Some (txn_id_seq s), counterparty := cparty,
                          reference := ref\<rparr>
              in case update_account_balance NEW s0 of
                   Inl e \<Rightarrow> (Inl e, s0)
                 | Inr (row, s1) \<Rightarrow>
                     if \<not> 0 < amount row then (Inl CheckViolation, s0)
                     else if \<not> isValidReference (reference row) then (Inl CheckViolation, s0)
                     else if reference row \<in> set (map reference (transactions s0))
                       then (Inl UniqueViolation, s0)
                     else if account_projections s0 (account_id row) = None
                       then (Inl ForeignKeyViolation, s0)
                     else (Inr row, s1\<lparr>transactions := transactions s1 @ [row]\<rparr>))
         | _ \<Rightarrow> (Inl StringTooLong, s)))"

text \<open>
  Modelled from the spec: \<^verbatim>\<open>db.transaction\<close> of database/connection.js, which is not
  among the sources, and the statements sent on the client it hands to its callback.
  It is the spec's atomic unit. Every call is a unit of its own, on a client of its
  own: it begins the unit, runs the callback with the client, and commits when the
  callback returns or rolls back and throws the error again when the callback throws.
  Only what is sent on the client belongs to the unit. A row inserted on the client is
  held back (\<open>uncommitted\<close>) and seen by that client alone (\<open>session_view\<close>); COMMIT
  writes the rows of the unit and the balance changes of their trigger to the tables
  (\<open>write_row\<close>), ROLLBACK drops them. A call made inside the callback of another call
  is a second unit: what it commits stays when the outer unit rolls back. A value a
  sequence has given is not taken back. A statement that would wait for a lock held by
  another unit is not modelled.
\<close>

definition write_row :: "Transaction \<Rightarrow> db \<Rightarrow> db" where
  "write_row row s =
     s\<lparr>account_projections :=
         (case account_projections s (account_id row) of
            None \<Rightarrow> account_projections s
          | Some a \<Rightarrow> (account_projections s)
                        (account_id row \<mapsto> a\<lparr>current_balance := trigger_balance row a\<rparr>)),
       transactions := transactions s @ [row]\<rparr>"

definition pending_rows :: "nat \<Rightarrow> db \<Rightarrow> Transaction list" where
  "pending_rows client s = map snd (filter (\<lambda>p. fst p = client) (uncommitted s))"

definition session_view :: "nat \<Rightarrow> db \<Rightarrow> db" where
  "session_view client s = foldl (\<lambda>v row. write_row row v) s (pending_rows client s)"

definition client_insert :: "nat \<Rightarrow> Transaction \<Rightarrow> db \<Rightarrow> (db_error + Transaction) \<times> db" where
  "client_insert client t s =
     (let s0 = s\<lparr>statement_log :=
                   statement_log s @ [(client, INSERT_INTO_transactions (reference t))]\<rparr>
      in case insert_transaction t (session_view client s) of
           (Inl e, v) \<Rightarrow> (Inl e, s0\<lparr>txn_id_seq := txn_id_seq v\<rparr>)
         | (Inr row, v) \<Rightarrow>
             (Inr row, s0\<lparr>txn_id_seq := txn_id_seq v,
                          uncommitted := uncommitted s0 @ [(client, row)]\<rparr>))"

definition commit_unit :: "nat \<Rightarrow> db \<Rightarrow> db" where
  "commit_unit client s =
     (session_view client s)
       \<lparr>uncommitted := filter (\<lambda>p. fst p \<noteq> client) (uncommitted s),
        statement_log := statement_log s @ [(client, COMMIT)]\<rparr>"

definition rollback_unit :: "nat \<Rightarrow> db \<Rightarrow> db" where
  "rollback_unit client s =
     s\<lparr>uncommitted := filter (\<lambda>p. fst p \<noteq> client) (uncommitted s),
       statement_log := statement_log s @ [(client, ROLLBACK)]\<rparr>"

definition db_transaction ::
  "(nat \<Rightarrow> db \<Rightarrow> (error + 'a) \<times> db) \<Rightarrow> db \<Rightarrow> (error + 'a) \<times> db" where
  "db_transaction callback s =
     (let client = clients s;
          s0 = s\<lparr>clients := Suc client,
                 statement_log := statement_log s @ [(client, BEGIN)]\<rparr>
      in case callback client s0 of
           (Inr r, s') \<Rightarrow> (Inr r, commit_unit client s')
         | (Inl e, s') \<Rightarrow> (Inl e, rollback_unit client s'))"

section \<open>TransactionRepository (repositories/TransactionRepository.js)\<close>

text \<open>
  \<^verbatim>\<open>Transaction.validate\<close>: the list of messages, empty when the object is valid.
  An \<^verbatim>\<open>account_id\<close> of zero is falsy and refused. The check of \<^verbatim>\<open>txn_type\<close>
  against the four literals always passes on the type used here.
\<close>

definition validate :: "Transaction \<Rightarrow> validation_error list" where
  "validate t =
     (if account_id t = 0 then [InvalidAccountId] else []) @
     (if amount t \<le> 0 then [AmountNotPositive] else []) @
     (if \<not> isValidReference (reference t) then [InvalidReference] else [])"

definition create :: "Transaction \<Rightarrow> db \<Rightarrow> (error + Transaction) \<times> db" where
  "create t s =
     (if validate t \<noteq> [] then (Inl (ValidationFailed (validate t)), s)
      else
        (case insert_transaction t s of
           (Inr row, s') \<Rightarrow> (Inr row, s')
         | (Inl e, s') \<Rightarrow>
             (if e = UniqueViolation then (Inl ReferenceAlreadyExists, s')
              else (Inl (DatabaseError e), s'))))"

text \<open>
  \<^verbatim>\<open>createMultiple\<close> takes the data alone, no client: it opens a \<^verbatim>\<open>db.transaction\<close>
  of its own and sends its inserts on the client of that unit. In the loop, \<open>created\<close>
  is the array \<^verbatim>\<open>transactions\<close>.
\<close>

fun createMultiple_loop ::
  "Transaction list \<Rightarrow> Transaction list \<Rightarrow> nat \<Rightarrow> db
     \<Rightarrow> (error + Transaction list) \<times> db" where
  "createMultiple_loop [] created client s = (Inr created, s)"
| "createMultiple_loop (t # ts) created client s =
     (if validate t \<noteq> [] then (Inl (ValidationFailed (validate t)), s)
      else
        (case client_insert client t s of
           (Inl e, s') \<Rightarrow> (Inl (DatabaseError e), s')
         | (Inr row, s') \<Rightarrow> createMultiple_loop ts (created @ [row]) client s'))"

definition createMultiple :: "Transaction list \<Rightarrow> db \<Rightarrow> (error + Transaction list) \<times> db" where
  "createMultiple transactionsData =
     db_transaction (createMultiple_loop transactionsData [])"

section \<open>AccountProjectionRepository (repositories/AccountProjectionRepository.js)\<close>

definition findById :: "int \<Rightarrow> db \<Rightarrow> AccountProjection option" where
  "findById accountId s = account_projections s accountId"

text \<open>
  \<^verbatim>\<open>lockForUpdate\<close> sends its query on the client it is given, or on the pool when
  it is given none; it throws when there is no row and returns the row otherwise. Its
  caller tests the returned value against null, so the result is an option here; the
  lock taken is written to the log.
\<close>

definition lockForUpdate ::
  "int \<Rightarrow> nat option \<Rightarrow> db \<Rightarrow> (error + AccountProjection option) \<times> db" where
  "lockForUpdate accountId client s =
     (let s0 = (case client of
                  None \<Rightarrow> s
                | Some c \<Rightarrow>
                    s\<lparr>statement_log := statement_log s @ [(c, SELECT_FOR_UPDATE accountId)]\<rparr>);
          seen = (case client of None \<Rightarrow> s | Some c \<Rightarrow> session_view c s)
      in case account_projections seen accountId of
           None \<Rightarrow> (Inl AccountProjectionNotFound, s0)
         | Some row \<Rightarrow> (Inr (Some row), s0\<lparr>lock_log := lock_log s0 @ [accountId]\<rparr>))"

section \<open>IdempotencyKeyRepository (repositories/IdempotencyKeyRepository.js)\<close>

text \<open>
  \<^verbatim>\<open>IdempotencyKey.validate\<close>, and \<^verbatim>\<open>IdempotencyKey.createExpiryDate\<close>, which
  sets the hour of the current local time 24 ahead: the reading \<open>dayAhead\<close> of the
  environment. \<^verbatim>\<open>create\<close> of the repository is \<open>create_key\<close> here.
\<close>

definition validate_key :: "string \<Rightarrow> validation_error list" where
  "validate_key k =
     (if k = [] then [KeyRequired] else []) @
     (if 255 < length k then [KeyTooLong] else [])"

definition createExpiryDate :: "env \<Rightarrow> int" where
  "createExpiryDate e = dayAhead e"

definition create_key :: "env \<Rightarrow> string \<Rightarrow> TransferData \<Rightarrow> db \<Rightarrow> (error + IdempotencyKey) \<times> db" where
  "create_key e k body s =
     (if validate_key k \<noteq> [] then (Inl (ValidationFailed (validate_key k)), s)
      else
        (let row = \<lparr>key_txn_id = None, request_body = Some body, response_body = None,
                    expires_at = createExpiryDate e\<rparr>
         in if idempotency_keys s k \<noteq> None then (Inl IdempotencyKeyExists, s)
            else (Inr row, s\<lparr>idempotency_keys := (idempotency_keys s)(k \<mapsto> row)\<rparr>)))"

text \<open>
  \<^verbatim>\<open>checkKey\<close> and its object \<^verbatim>\<open>{exists, expired, processed, response}\<close>. The
  response is \<^verbatim>\<open>row.response_body ? JSON.parse(row.response_body) : null\<close>, and the
  column arrives as an object already parsed: \<^verbatim>\<open>JSON.parse\<close> turns the object into
  the string \<^verbatim>\<open>[object Object]\<close> and throws a SyntaxError. So \<^verbatim>\<open>checkKey\<close> throws
  for every row that holds a response and answers for the others.
\<close>

record key_status =
  key_exists :: bool
  expired :: bool
  processed :: bool
  response :: "TransferResult option"

definition checkKey :: "env \<Rightarrow> string \<Rightarrow> db \<Rightarrow> error + key_status" where
  "checkKey e k s =
     (case idempotency_keys s k of
        None \<Rightarrow>
          Inr \<lparr>key_exists = False, expired = False, processed = False, response = None\<rparr>
      | Some row \<Rightarrow>
          (case response_body row of
             Some parsed \<Rightarrow> Inl SyntaxError
           | None \<Rightarrow>
               Inr \<lparr>key_exists = True,
                    expired = (now e > expires_at row),
                    processed = (key_txn_id row \<noteq> None),
                    response = None\<rparr>))"

text \<open>
  \<^verbatim>\<open>updateWithResult\<close>: the UPDATE sets \<^verbatim>\<open>txn_id\<close>, a foreign key to
  \<^verbatim>\<open>transactions\<close>, and \<^verbatim>\<open>response_body\<close>. The row it returns is then read as
  \<^verbatim>\<open>checkKey\<close> reads it, with \<^verbatim>\<open>JSON.parse\<close> on \<^verbatim>\<open>request_body\<close> and on
  \<^verbatim>\<open>response_body\<close> where they are not null: the update is made and the function
  throws a SyntaxError.
\<close>

definition updateWithResult ::
  "string \<Rightarrow> nat option \<Rightarrow> TransferResult \<Rightarrow> db \<Rightarrow> (error + IdempotencyKey) \<times> db" where
  "updateWithResult k txnId responseBody s =
     (case idempotency_keys s k of
        None \<Rightarrow> (Inl IdempotencyKeyNotFound, s)
      | Some row \<Rightarrow>
          if txnId \<noteq> None \<and> txnId \<notin> set (map txn_id (transactions s))
            then (Inl (DatabaseError ForeignKeyViolation), s)
          else
            (let row' = row\<lparr>key_txn_id := txnId, response_body := Some responseBody\<rparr>;
                 s' = s\<lparr>idempotency_keys := (idempotency_keys s)(k \<mapsto> row')\<rparr>
             in if request_body row' \<noteq> None \<or> response_body row' \<noteq> None
                  then (Inl SyntaxError, s')
                else (Inr row', s')))"

definition delete_key :: "string \<Rightarrow> db \<Rightarrow> bool \<times> db" where
  "delete_key k s =
     (idempotency_keys s k \<noteq> None, s\<lparr>idempotency_keys := (idempotency_keys s)(k := None)\<rparr>)"

section \<open>TransactionService (services/TransactionService.js)\<close>

definition processDeposit ::
  "env \<Rightarrow> int \<Rightarrow> money \<Rightarrow> string option \<Rightarrow> string option \<Rightarrow> db
     \<Rightarrow> (error + TransactionResult) \<times> db" where
  "processDeposit e acct amt cparty descr s =
     (case findById acct s of
        None \<Rightarrow> (Inl AccountNotFound, s)
      | Some account \<Rightarrow>
          if \<not> isActive account then (Inl AccountNotActive, s)
          else
            (case canCredit account amt of
               Denied reason \<Rightarrow> (Inl reason, s)
             | Allowed newBalance \<Rightarrow>
                 (let ref = generateReference (isoString e) (random36 e)
                  in case create \<lparr>txn_id = None, account_id = acct, amount = amt,
                                   txn_type = DEPOSIT, counterparty = cparty, reference = ref,
                                   description = descr, balance_after = None\<rparr> s of
                       (Inl err, s') \<Rightarrow> (Inl err, s')
                     | (Inr t, s') \<Rightarrow> (Inr \<lparr>transaction = t, new_balance = newBalance\<rparr>, s'))))"

definition processWithdrawal ::
  "env \<Rightarrow> int \<Rightarrow> money \<Rightarrow> string option \<Rightarrow> string option \<Rightarrow> db
     \<Rightarrow> (error + TransactionResult) \<times> db" where
  "processWithdrawal e acct amt cparty descr s =
     (case findById acct s of
        None \<Rightarrow> (Inl AccountNotFound, s)
      | Some account \<Rightarrow>
          if \<not> isActive account then (Inl AccountNotActive, s)
          else
            (case canDebit account amt of
               Denied reason \<Rightarrow> (Inl reason, s)
             | Allowed newBalance \<Rightarrow>
                 (let ref = generateReference (isoString e) (random36 e)
                  in case create \<lparr>txn_id = None, account_id = acct, amount = amt,
                                   txn_type = WITHDRAWAL, counterparty = cparty, reference = ref,
                                   description = descr, balance_after = None\<rparr> s of
                       (Inl err, s') \<Rightarrow> (Inl err, s')
                     | (Inr t, s') \<Rightarrow> (Inr \<lparr>transaction = t, new_balance = newBalance\<rparr>, s'))))"

text \<open>
  \<^verbatim>\<open>processTransfer\<close>, in three parts. First the block under
  \<^verbatim>\<open>if (idempotencyKey)\<close>: it throws, returns the stored response, or lets the
  function go on.
\<close>

datatype idempotency_outcome =
    Continue
  | ReturnStored "TransferResult option"
  | Throw error

definition processTransfer_idempotency ::
  "env \<Rightarrow> string \<Rightarrow> TransferData \<Rightarrow> db \<Rightarrow> idempotency_outcome \<times> db" where
  "processTransfer_idempotency e k transferData s =
     (case checkKey e k s of
        Inl err \<Rightarrow> (Throw err, s)
      | Inr keyStatus \<Rightarrow>
          if key_exists keyStatus then
            (if expired keyStatus then (Throw IdempotencyKeyExpired, s)
             else if processed keyStatus then (ReturnStored (response keyStatus), s)
             else (Continue, s))
          else
            (case create_key e k transferData s of
               (Inl err, s') \<Rightarrow> (Throw err, s')
             | (Inr row, s') \<Rightarrow> (Continue, s')))"

text \<open>
  Second, the callback handed to \<^verbatim>\<open>db.transaction\<close>. It gives its client to the
  two calls of \<^verbatim>\<open>lockForUpdate\<close> and to nothing else.
\<close>

definition processTransfer_callback ::
  "env \<Rightarrow> TransferData \<Rightarrow> nat \<Rightarrow> db \<Rightarrow> (error + TransferResult) \<times> db" where
  "processTransfer_callback e transferData client s =
     (case lockForUpdate (from_account_id transferData) (Some client) s of
        (Inl err, s1) \<Rightarrow> (Inl err, s1)
      | (Inr fromAccount, s1) \<Rightarrow>
     (case lockForUpdate (to_account_id transferData) (Some client) s1 of
        (Inl err, s2) \<Rightarrow> (Inl err, s2)
      | (Inr toAccount, s2) \<Rightarrow>
     (case fromAccount of
        None \<Rightarrow> (Inl SourceAccountNotFound, s2)
      | Some fromAcc \<Rightarrow>
     (case toAccount of
        None \<Rightarrow> (Inl DestinationAccountNotFound, s2)
      | Some toAcc \<Rightarrow>
          if \<not> isActive fromAcc then (Inl SourceAccountNotActive, s2)
          else if \<not> isActive toAcc then (Inl DestinationAccountNotActive, s2)
          else
     (case canDebit fromAcc (transfer_amount transferData) of
        Denied reason \<Rightarrow> (Inl (TransferFailed reason), s2)
      | Allowed debitBalance \<Rightarrow>
     (case canCredit toAcc (transfer_amount transferData) of
        Denied reason \<Rightarrow> (Inl (TransferFailed reason), s2)
      | Allowed creditBalance \<Rightarrow>
          (let ref = generateReference (isoString e) (random36 e);
               debitTransaction =
                 \<lparr>txn_id = None, account_id = from_account_id transferData,
                  amount = transfer_amount transferData, txn_type = TRANSFER_OUT,
                  counterparty = Some (''Transfer to '' @ account_number toAcc),
                  reference = ref @ ''-OUT'',
                  description = transfer_description transferData, balance_after = None\<rparr>;
               creditTransaction =
                 \<lparr>txn_id = None, account_id = to_account_id transferData,
                  amount = transfer_amount transferData, txn_type = TRANSFER_IN,
                  counterparty = Some (''Transfer from '' @ account_number fromAcc),
                  reference = ref @ ''-IN'',
                  description = transfer_description transferData, balance_after = None\<rparr>
           in case createMultiple [debitTransaction, creditTransaction] s2 of
                (Inl err, s3) \<Rightarrow> (Inl err, s3)
              | (Inr created, s3) \<Rightarrow>
                  (case created of
                     d # c # rest \<Rightarrow>
                       (Inr \<lparr>transfer_reference = ref, debit_transaction = d,
                             credit_transaction = c,
                             from_account_new_balance = debitBalance,
                             to_account_new_balance = creditBalance\<rparr>, s3)
                   | _ \<Rightarrow> (Inl TypeError, s3)))))))))"

text \<open>
  Third, the function itself. A key that is null or the empty string is falsy and
  switches the idempotency handling off. The \<^verbatim>\<open>try\<close> block holds the transaction
  and the update of the key; the \<^verbatim>\<open>catch\<close> block deletes the key and throws again.
\<close>

definition processTransfer ::
  "env \<Rightarrow> TransferData \<Rightarrow> string option \<Rightarrow> db \<Rightarrow> (error + TransferResult option) \<times> db" where
  "processTransfer e transferData idempotencyKey s =
     (let k = (case idempotencyKey of None \<Rightarrow> [] | Some k' \<Rightarrow> k');
          keyed = (k \<noteq> [])
      in case (if keyed then processTransfer_idempotency e k transferData s else (Continue, s)) of
           (Throw err, s1) \<Rightarrow> (Inl err, s1)
         | (ReturnStored r, s1) \<Rightarrow> (Inr r, s1)
         | (Continue, s1) \<Rightarrow>
             (case db_transaction (processTransfer_callback e transferData) s1 of
                (Inl err, s2) \<Rightarrow> (Inl err, if keyed then snd (delete_key k s2) else s2)
              | (Inr result, s2) \<Rightarrow>
                  if keyed then
                    (case updateWithResult k (txn_id (debit_transaction result)) result s2 of
                       (Inl err, s3) \<Rightarrow> (Inl err, snd (delete_key k s3))
                     | (Inr row, s3) \<Rightarrow> (Inr (Some result), s3))
                  else (Inr (Some result), s2)))"

section \<open>Properties and example states\<close>

text \<open>
  The signed amount of a ledger entry, the signed sum of the entries of one account,
  and the invariant that every balance equals that sum.
\<close>

definition signed_amount :: "Transaction \<Rightarrow> money" where
  "signed_amount t =
     (if txn_type t \<in> {DEPOSIT, TRANSFER_IN} then amount t else - amount t)"

definition ledger_sum :: "int \<Rightarrow> Transaction list \<Rightarrow> money" where
  "ledger_sum a ts = sum_list (map signed_amount (filter (\<lambda>t. account_id t = a) ts))"

definition balance_matches_ledger :: "db \<Rightarrow> bool" where
  "balance_matches_ledger s =
     (\<forall>a row. account_projections s a = Some row \<longrightarrow>
        current_balance row = ledger_sum a (transactions s))"

text \<open>
  Between a state and a later one: the old entries are all there, in place, and every
  new entry carries in \<^verbatim>\<open>balance_after\<close> the balance of its account.
\<close>

definition entries_record_balance :: "db \<Rightarrow> db \<Rightarrow> bool" where
  "entries_record_balance s s' =
     (take (length (transactions s)) (transactions s') = transactions s \<and>
      (\<forall>t \<in> set (drop (length (transactions s)) (transactions s')).
         balance_after t = map_option current_balance (account_projections s' (account_id t))))"

text \<open>
  A call of \<^verbatim>\<open>processTransfer\<close> gets past its idempotency block: no key, an empty
  key, or a key for which the block lets the function go on.
\<close>

definition idempotency_passes :: "env \<Rightarrow> TransferData \<Rightarrow> string option \<Rightarrow> db \<Rightarrow> bool" where
  "idempotency_passes e td k s =
     (case k of
        None \<Rightarrow> True
      | Some k' \<Rightarrow> k' = [] \<or> fst (processTransfer_idempotency e k' td s) = Continue)"

text \<open>
  Example states. Three active accounts: 1 (savings, 500.00), 2 (current, 30.00) and
  3 (savings, 200.00), an empty ledger and no idempotency key. The clock reads
  2025-08-27 10:15:30 UTC and the random draw prints as \<^verbatim>\<open>0.gxpbwh3k2\<close>, so the
  reference generated is \<^verbatim>\<open>REF20250827-GXPBWH\<close>. The transfer moves 100.00 from
  account 1 to account 3.
\<close>

definition account_1 :: AccountProjection where
  "account_1 = \<lparr>account_number = ''688833778006'', account_type = SAVINGS,
                 current_balance = 50000, status = ACTIVE\<rparr>"

definition account_2 :: AccountProjection where
  "account_2 = \<lparr>account_number = ''711203034246'', account_type = CURRENT,
                 current_balance = 3000, status = ACTIVE\<rparr>"

definition account_3 :: AccountProjection where
  "account_3 = \<lparr>account_number = ''526468425099'', account_type = SAVINGS,
                 current_balance = 20000, status = ACTIVE\<rparr>"

definition example_db :: db where
  "example_db = \<lparr>account_projections = [1 \<mapsto> account_1, 2 \<mapsto> account_2, 3 \<mapsto> account_3],
                  transactions = [], idempotency_keys = Map.empty,
                  txn_id_seq = 1, lock_log = [], clients = 0, uncommitted = [],
                  statement_log = []\<rparr>"

definition example_env :: env where
  "example_env = \<lparr>now = 1756289730000, isoString = ''2025-08-27T10:15:30.000Z'',
                   random36 = ''0.gxpbwh3k2'', dayAhead = 1756376130000\<rparr>"

definition example_transfer :: TransferData where
  "example_transfer = \<lparr>from_account_id = 1, to_account_id = 3, transfer_amount = 10000,
                        transfer_description = None\<rparr>"

text \<open>
  A second reading of the environment, five seconds later, for a retry; the transfer
  in the other direction; a transfer from an account that does not exist.
\<close>

definition retry_env :: env where
  "retry_env = \<lparr>now = 1756289735000, isoString = ''2025-08-27T10:15:35.000Z'',
                 random36 = ''0.k2j4h6g8d'', dayAhead = 1756376135000\<rparr>"

definition reverse_transfer :: TransferData where
  "reverse_transfer = \<lparr>from_account_id = 3, to_account_id = 1, transfer_amount = 10000,
                        transfer_description = None\<rparr>"

definition missing_transfer :: TransferData where
  "missing_transfer = \<lparr>from_account_id = 99, to_account_id = 3, transfer_amount = 10000,
                        transfer_description = None\<rparr>"

text \<open>
  The example state with one idempotency key: in flight (no \<^verbatim>\<open>txn_id\<close>, no response,
  expiring in 24 hours), like the key \<^verbatim>\<open>test-transfer-001\<close> that the seed script
  inserts; and expired one second ago.
\<close>

definition in_flight_key :: IdempotencyKey where
  "in_flight_key = \<lparr>key_txn_id = None, request_body = Some example_transfer,
                     response_body = None, expires_at = 1756376130000\<rparr>"

definition in_flight_db :: db where
  "in_flight_db = example_db\<lparr>idempotency_keys := [''test-transfer-001'' \<mapsto> in_flight_key]\<rparr>"

definition expired_key :: IdempotencyKey where
  "expired_key = \<lparr>key_txn_id = None, request_body = Some example_transfer,
                   response_body = None, expires_at = 1756289729000\<rparr>"

definition expired_db :: db where
  "expired_db = example_db\<lparr>idempotency_keys := [''k1'' \<mapsto> expired_key]\<rparr>"

text \<open>
  The example state after the deposit of 30.00 that opened account 2, whose reference
  is the one the example environment generates.
\<close>

definition earlier_deposit :: Transaction where
  "earlier_deposit = \<lparr>txn_id = Some 1, account_id = 2, amount = 3000, txn_type = DEPOSIT,
                       counterparty = None, reference = ''REF20250827-GXPBWH'',
                       description = None, balance_after = Some 3000\<rparr>"

definition collision_db :: db where
  "collision_db = example_db\<lparr>transactions := [earlier_deposit], txn_id_seq := 2\<rparr>"

text \<open>Accounts 1 and 3 just opened: balances zero, ledger empty.\<close>

definition fresh_db :: db where
  "fresh_db = \<lparr>account_projections = [1 \<mapsto> account_1\<lparr>current_balance := 0\<rparr>,
                                        3 \<mapsto> account_3\<lparr>current_balance := 0\<rparr>],
                transactions = [], idempotency_keys = Map.empty,
                txn_id_seq = 1, lock_log = [], clients = 0, uncommitted = [],
                statement_log = []\<rparr>"

section \<open>Lemmas about the model\<close>

subsection \<open>The reference check\<close>

text \<open>No string that ends in \<^verbatim>\<open>-OUT\<close> or in \<^verbatim>\<open>-IN\<close> has the reference format.\<close>

lemma suffix_OUT_invalid: "\<not> isValidReference (r @ ''-OUT'')"
proof
  assume v: "isValidReference (r @ ''-OUT'')"
  from v have "length (r @ ''-OUT'') = 18" unfolding isValidReference_def by blast
  then have len: "length r = 14" by simp
  from v have "list_all isUpperAlnum (drop 12 (r @ ''-OUT''))"
    unfolding isValidReference_def by blast
  with len have "list_all isUpperAlnum (drop 12 r @ ''-OUT'')" by simp
  then show False by (simp add: isUpperAlnum_def)
qed

lemma suffix_IN_invalid: "\<not> isValidReference (r @ ''-IN'')"
proof
  assume v: "isValidReference (r @ ''-IN'')"
  from v have "length (r @ ''-IN'') = 18" unfolding isValidReference_def by blast
  then have len: "length r = 15" by simp
  from v have "list_all isUpperAlnum (drop 12 (r @ ''-IN''))"
    unfolding isValidReference_def by blast
  with len have "list_all isUpperAlnum (drop 12 r @ ''-IN'')" by simp
  then show False by (simp add: isUpperAlnum_def)
qed

text \<open>A reference that has the reference format is stored as it is.\<close>

lemma fit_varchar_valid_reference:
  assumes "fit_varchar 50 r = Some r'" and "isValidReference r'"
  shows "r' = r"
proof (cases "length r \<le> 50")
  case True
  with assms show ?thesis by (simp add: fit_varchar_def)
next
  case False
  with assms(1) have "r' = take 50 r" by (auto simp: fit_varchar_def split: if_splits)
  with False have "length r' = 50" by simp
  moreover from assms(2) have "length r' = 18" unfolding isValidReference_def by blast
  ultimately show ?thesis by simp
qed


subsection \<open>The ledger insert, deposits and withdrawals\<close>

text \<open>
  What an insert does: when it fails the tables are as they were; when it succeeds the
  account was there, its balance has moved by the signed amount, and the row is the last
  entry of the ledger.
\<close>

lemma insert_transaction_Inl:
  "insert_transaction t s = (Inl err, s') \<Longrightarrow>
     s' = s \<or> s' = s\<lparr>txn_id_seq := Suc (txn_id_seq s)\<rparr>"
  by (auto simp: insert_transaction_def Let_def
           split: if_splits sum.splits prod.splits option.splits)

lemma trigger_balance_signed:
  "trigger_balance t a = current_balance a + signed_amount t"
  by (cases "txn_type t") (simp_all add: trigger_balance_def signed_amount_def)

lemma insert_transaction_Inr:
  assumes "insert_transaction t s = (Inr row, s')"
  shows "\<exists>a cp. account_projections s (account_id t) = Some a \<and>
             fit_varchar_option 255 (counterparty t) = Some cp \<and>
             row = t\<lparr>txn_id := Some (txn_id_seq s), counterparty := cp,
                     balance_after := Some (current_balance a + signed_amount t)\<rparr> \<and>
             s' = s\<lparr>txn_id_seq := Suc (txn_id_seq s),
                    account_projections := (account_projections s)
                       (account_id t \<mapsto> a\<lparr>current_balance := current_balance a + signed_amount t\<rparr>),
                    transactions := transactions s @ [row]\<rparr> \<and>
             0 < amount t \<and> isValidReference (reference t) \<and>
             reference t \<notin> set (map reference (transactions s)) \<and>
             fits_decimal_15_2 (amount t) \<and>
             fits_decimal_15_2 (current_balance a + signed_amount t)"
proof -
  from assms obtain cp ref where
    cp: "fit_varchar_option 255 (counterparty t) = Some cp" and
    ref: "fit_varchar 50 (reference t) = Some ref" and
    fits: "fits_decimal_15_2 (amount t)"
    by (auto simp: insert_transaction_def split: if_splits option.splits)
  let ?NEW = "t\<lparr>txn_id := Some (txn_id_seq s), counterparty := cp, reference := ref\<rparr>"
  let ?s0 = "s\<lparr>txn_id_seq := Suc (txn_id_seq s)\<rparr>"
  from assms cp ref fits have body:
    "(case update_account_balance ?NEW ?s0 of
        Inl e \<Rightarrow> (Inl e, ?s0)
      | Inr (row, s1) \<Rightarrow>
          if \<not> 0 < amount row then (Inl CheckViolation, ?s0)
          else if \<not> isValidReference (reference row) then (Inl CheckViolation, ?s0)
          else if reference row \<in> set (map reference (transactions ?s0))
            then (Inl UniqueViolation, ?s0)
          else if account_projections ?s0 (account_id row) = None
            then (Inl ForeignKeyViolation, ?s0)
          else (Inr row, s1\<lparr>transactions := transactions s1 @ [row]\<rparr>)) = (Inr row, s')"
    by (simp add: insert_transaction_def Let_def)
  show ?thesis
  proof (cases "account_projections s (account_id t)")
    case None
    with body show ?thesis
      by (auto simp: update_account_balance_def Let_def split: if_splits)
  next
    case (Some a)
    with body have valid: "isValidReference ref"
      by (auto simp: update_account_balance_def Let_def split: if_splits)
    from fit_varchar_valid_reference [OF ref valid] have "ref = reference t" .
    with body Some cp fits show ?thesis
      by (auto simp: update_account_balance_def Let_def trigger_balance_signed
               signed_amount_def split: if_splits)
  qed
qed

lemma ledger_sum_snoc:
  "ledger_sum a (ts @ [t]) = ledger_sum a ts + (if account_id t = a then signed_amount t else 0)"
  by (simp add: ledger_sum_def)

lemma insert_transaction_invariant:
  assumes inv: "balance_matches_ledger s"
  shows "balance_matches_ledger (snd (insert_transaction t s))"
proof (cases "insert_transaction t s")
  case (Pair r s')
  show ?thesis
  proof (cases r)
    case (Inl err)
    with Pair have "s' = s \<or> s' = s\<lparr>txn_id_seq := Suc (txn_id_seq s)\<rparr>"
      by (simp add: insert_transaction_Inl)
    with inv Pair show ?thesis by (auto simp: balance_matches_ledger_def)
  next
    case (Inr row)
    with Pair have "insert_transaction t s = (Inr row, s')" by simp
    from insert_transaction_Inr [OF this] obtain a cp where
      a: "account_projections s (account_id t) = Some a" and
      row: "row = t\<lparr>txn_id := Some (txn_id_seq s), counterparty := cp,
                     balance_after := Some (current_balance a + signed_amount t)\<rparr>" and
      s': "s' = s\<lparr>txn_id_seq := Suc (txn_id_seq s),
                    account_projections := (account_projections s)
                       (account_id t \<mapsto> a\<lparr>current_balance := current_balance a + signed_amount t\<rparr>),
                    transactions := transactions s @ [row]\<rparr>"
      by blast
    have sg: "signed_amount row = signed_amount t" and id: "account_id row = account_id t"
      using row by (simp_all add: signed_amount_def)
    have "balance_matches_ledger s'"
      unfolding balance_matches_ledger_def
    proof (intro allI impI)
      fix b r'
      assume h: "account_projections s' b = Some r'"
      show "current_balance r' = ledger_sum b (transactions s')"
      proof (cases "b = account_id t")
        case True
        with h s' have "r' = a\<lparr>current_balance := current_balance a + signed_amount t\<rparr>" by simp
        moreover from inv a have "current_balance a = ledger_sum (account_id t) (transactions s)"
          by (simp add: balance_matches_ledger_def)
        ultimately show ?thesis using True s' sg id by (simp add: ledger_sum_snoc)
      next
        case False
        with h s' have "account_projections s b = Some r'" by simp
        with inv have "current_balance r' = ledger_sum b (transactions s)"
          by (simp add: balance_matches_ledger_def)
        with False s' id show ?thesis by (simp add: ledger_sum_snoc)
      qed
    qed
    with Pair show ?thesis by simp
  qed
qed

lemma create_invariant:
  assumes "balance_matches_ledger s" and "create t s = (r, s')"
  shows "balance_matches_ledger s'"
  using assms insert_transaction_invariant [of s t]
  by (auto simp: create_def split: prod.splits sum.splits if_splits)

lemma processDeposit_invariant:
  "balance_matches_ledger s \<Longrightarrow> balance_matches_ledger (snd (processDeposit e a amt c d s))"
  unfolding processDeposit_def Let_def
  by (auto split: option.splits check_result.splits prod.splits sum.splits
           dest: create_invariant)

lemma processWithdrawal_invariant:
  "balance_matches_ledger s \<Longrightarrow> balance_matches_ledger (snd (processWithdrawal e a amt c d s))"
  unfolding processWithdrawal_def Let_def
  by (auto split: option.splits check_result.splits prod.splits sum.splits
           dest: create_invariant)

lemma create_Inl:
  "create t s = (Inl err, s') \<Longrightarrow>
     s' = s \<or> s' = s\<lparr>txn_id_seq := Suc (txn_id_seq s)\<rparr>"
  by (auto simp: create_def split: prod.splits sum.splits if_splits dest: insert_transaction_Inl)

lemma create_Inr:
  "create t s = (Inr row, s') \<Longrightarrow> insert_transaction t s = (Inr row, s') \<and> validate t = []"
  by (auto simp: create_def split: prod.splits sum.splits if_splits)

lemma processDeposit_Inl:
  "processDeposit e a amt c d s = (Inl err, s') \<Longrightarrow>
     s' = s \<or> s' = s\<lparr>txn_id_seq := Suc (txn_id_seq s)\<rparr>"
  unfolding processDeposit_def Let_def
  by (auto split: option.splits check_result.splits prod.splits sum.splits if_splits
           dest: create_Inl)

lemma processWithdrawal_Inl:
  "processWithdrawal e a amt c d s = (Inl err, s') \<Longrightarrow>
     s' = s \<or> s' = s\<lparr>txn_id_seq := Suc (txn_id_seq s)\<rparr>"
  unfolding processWithdrawal_def Let_def
  by (auto split: option.splits check_result.splits prod.splits sum.splits if_splits
           dest: create_Inl)

lemma processDeposit_Inr:
  assumes "processDeposit e a amt c d s = (Inr r, s')"
  shows "\<exists>acc cp. account_projections s a = Some acc \<and> status acc = ACTIVE \<and>
           fit_varchar_option 255 c = Some cp \<and>
           new_balance r = current_balance acc + amt \<and>
           transaction r = \<lparr>txn_id = Some (txn_id_seq s), account_id = a, amount = amt,
              txn_type = DEPOSIT, counterparty = cp,
              reference = generateReference (isoString e) (random36 e),
              description = d, balance_after = Some (current_balance acc + amt)\<rparr> \<and>
           s' = s\<lparr>txn_id_seq := Suc (txn_id_seq s),
                  account_projections := (account_projections s)
                     (a \<mapsto> acc\<lparr>current_balance := current_balance acc + amt\<rparr>),
                  transactions := transactions s @ [transaction r]\<rparr>"
proof -
  from assms obtain acc where acc: "account_projections s a = Some acc" "status acc = ACTIVE"
    by (auto simp: processDeposit_def findById_def isActive_def split: option.splits if_splits)
  let ?t = "\<lparr>txn_id = None, account_id = a, amount = amt,
              txn_type = DEPOSIT, counterparty = c,
              reference = generateReference (isoString e) (random36 e),
              description = d, balance_after = None\<rparr>"
  from assms acc have cr: "create ?t s = (Inr (transaction r), s')"
    and nb: "new_balance r = current_balance acc + amt"
    by (auto simp: processDeposit_def findById_def isActive_def canCredit_def Let_def
             split: prod.splits sum.splits)
  from create_Inr [OF cr] have "insert_transaction ?t s = (Inr (transaction r), s')" by simp
  from insert_transaction_Inr [OF this] acc nb show ?thesis
    by (auto simp: signed_amount_def)
qed

lemma processWithdrawal_Inr:
  assumes "processWithdrawal e a amt c d s = (Inr r, s')"
  shows "\<exists>acc cp. account_projections s a = Some acc \<and> status acc = ACTIVE \<and>
           (0 \<le> current_balance acc - amt \<or> account_type acc = CURRENT) \<and>
           fit_varchar_option 255 c = Some cp \<and>
           new_balance r = current_balance acc - amt \<and>
           transaction r = \<lparr>txn_id = Some (txn_id_seq s), account_id = a, amount = amt,
              txn_type = WITHDRAWAL, counterparty = cp,
              reference = generateReference (isoString e) (random36 e),
              description = d, balance_after = Some (current_balance acc - amt)\<rparr> \<and>
           s' = s\<lparr>txn_id_seq := Suc (txn_id_seq s),
                  account_projections := (account_projections s)
                     (a \<mapsto> acc\<lparr>current_balance := current_balance acc - amt\<rparr>),
                  transactions := transactions s @ [transaction r]\<rparr>"
proof -
  from assms obtain acc where acc: "account_projections s a = Some acc" "status acc = ACTIVE"
    by (auto simp: processWithdrawal_def findById_def isActive_def split: option.splits if_splits)
  let ?t = "\<lparr>txn_id = None, account_id = a, amount = amt,
              txn_type = WITHDRAWAL, counterparty = c,
              reference = generateReference (isoString e) (random36 e),
              description = d, balance_after = None\<rparr>"
  from assms acc have cr: "create ?t s = (Inr (transaction r), s')"
    and nb: "new_balance r = current_balance acc - amt"
    and ok: "0 \<le> current_balance acc - amt \<or> account_type acc = CURRENT"
    by (auto simp: processWithdrawal_def findById_def isActive_def canDebit_def Let_def
                   allowsOverdraft_def
             split: prod.splits sum.splits if_splits)
  from create_Inr [OF cr] have "insert_transaction ?t s = (Inr (transaction r), s')" by simp
  from insert_transaction_Inr [OF this] acc nb ok show ?thesis
    by (auto simp: signed_amount_def)
qed



subsection \<open>Units\<close>

text \<open>
  What a session sees differs from what is committed in the balances and in the ledger
  only: the accounts are the same accounts, and nothing else is touched.
\<close>

lemma write_row_fields:
  "idempotency_keys (write_row r s) = idempotency_keys s"
  "txn_id_seq (write_row r s) = txn_id_seq s"
  "lock_log (write_row r s) = lock_log s"
  "clients (write_row r s) = clients s"
  "uncommitted (write_row r s) = uncommitted s"
  "statement_log (write_row r s) = statement_log s"
  "transactions (write_row r s) = transactions s @ [r]"
  by (simp_all add: write_row_def)

lemma write_row_None:
  "(account_projections (write_row r s) a = None) = (account_projections s a = None)"
  by (cases "account_projections s (account_id r)") (simp_all add: write_row_def)

lemma write_rows_fields:
  "idempotency_keys (foldl (\<lambda>v row. write_row row v) s rows) = idempotency_keys s \<and>
   txn_id_seq (foldl (\<lambda>v row. write_row row v) s rows) = txn_id_seq s \<and>
   lock_log (foldl (\<lambda>v row. write_row row v) s rows) = lock_log s \<and>
   clients (foldl (\<lambda>v row. write_row row v) s rows) = clients s \<and>
   uncommitted (foldl (\<lambda>v row. write_row row v) s rows) = uncommitted s \<and>
   statement_log (foldl (\<lambda>v row. write_row row v) s rows) = statement_log s \<and>
   transactions (foldl (\<lambda>v row. write_row row v) s rows) = transactions s @ rows \<and>
   (account_projections (foldl (\<lambda>v row. write_row row v) s rows) a = None) =
     (account_projections s a = None)"
proof (induction rows arbitrary: s)
  case Nil
  then show ?case by simp
next
  case (Cons r rows)
  from Cons.IH [of "write_row r s"] show ?case
    by (simp add: write_row_fields write_row_None)
qed

lemma write_rows_accounts_cong:
  "account_projections s = account_projections s2 \<Longrightarrow>
   account_projections (foldl (\<lambda>v row. write_row row v) s rows) =
   account_projections (foldl (\<lambda>v row. write_row row v) s2 rows)"
proof (induction rows arbitrary: s s2)
  case Nil
  then show ?case by simp
next
  case (Cons r rows)
  from Cons.prems have "account_projections (write_row r s) = account_projections (write_row r s2)"
    by (cases "account_projections s2 (account_id r)") (simp_all add: write_row_def)
  from Cons.IH [OF this] show ?case by simp
qed

lemma session_view_accounts_cong:
  assumes "account_projections s = account_projections s2" and "uncommitted s = uncommitted s2"
  shows "account_projections (session_view c s) = account_projections (session_view c s2)"
proof -
  from assms(2) have "pending_rows c s = pending_rows c s2" by (simp add: pending_rows_def)
  with write_rows_accounts_cong [OF assms(1), of "pending_rows c s2"]
  show ?thesis by (simp add: session_view_def)
qed

lemma session_view_None:
  "(account_projections (session_view c s) a = None) = (account_projections s a = None)"
  by (simp add: session_view_def write_rows_fields)

lemma session_view_idle:
  "uncommitted s = [] \<Longrightarrow> session_view c s = s"
  by (simp add: session_view_def pending_rows_def)

text \<open>
  A lock changes no table: it fails when the account is not there, and otherwise
  returns a row, never null, and is written to the log.
\<close>

lemma lockForUpdate_cases:
  obtains
    (missing) "account_projections s a = None"
      "fst (lockForUpdate a (Some c) s) = Inl AccountProjectionNotFound"
      "lock_log (snd (lockForUpdate a (Some c) s)) = lock_log s"
  | (locked) row where "account_projections s a \<noteq> None"
      "account_projections (session_view c s) a = Some row"
      "fst (lockForUpdate a (Some c) s) = Inr (Some row)"
      "lock_log (snd (lockForUpdate a (Some c) s)) = lock_log s @ [a]"
proof (cases "account_projections (session_view c s) a")
  case None
  then have "account_projections s a = None" by (simp add: session_view_None)
  with None show ?thesis by (intro missing) (simp_all add: lockForUpdate_def Let_def)
next
  case (Some row)
  then have "account_projections s a \<noteq> None"
    using session_view_None [of c s a] by simp
  with Some show ?thesis by (intro locked [of row]) (simp_all add: lockForUpdate_def Let_def)
qed

lemma lockForUpdate_tables:
  "account_projections (snd (lockForUpdate a cl s)) = account_projections s \<and>
   transactions (snd (lockForUpdate a cl s)) = transactions s \<and>
   idempotency_keys (snd (lockForUpdate a cl s)) = idempotency_keys s \<and>
   txn_id_seq (snd (lockForUpdate a cl s)) = txn_id_seq s \<and>
   uncommitted (snd (lockForUpdate a cl s)) = uncommitted s \<and>
   clients (snd (lockForUpdate a cl s)) = clients s"
  by (cases cl) (simp_all add: lockForUpdate_def Let_def split: option.splits)

lemma lockForUpdate_not_null: "fst (lockForUpdate a cl s) \<noteq> Inr None"
  by (cases cl) (simp_all add: lockForUpdate_def Let_def split: option.splits)

text \<open>
  \<^verbatim>\<open>createMultiple\<close> on entries of which the first does not pass
  \<^verbatim>\<open>Transaction.validate\<close>: its unit is begun and rolled back with no statement in
  between.
\<close>

lemma createMultiple_first_invalid:
  assumes "validate t \<noteq> []"
  shows "createMultiple (t # ts) s =
    (Inl (ValidationFailed (validate t)),
     s\<lparr>clients := Suc (clients s),
       statement_log := statement_log s @ [(clients s, BEGIN), (clients s, ROLLBACK)],
       uncommitted := filter (\<lambda>p. fst p \<noteq> clients s) (uncommitted s)\<rparr>)"
  using assms
  by (simp add: createMultiple_def db_transaction_def rollback_unit_def Let_def)


subsection \<open>Transfers\<close>

text \<open>
  The callback of \<^verbatim>\<open>processTransfer\<close> always ends in an error: when every check
  passes, \<^verbatim>\<open>createMultiple\<close> refuses the reference of the debit entry. It changes no
  table and takes the lock on the source, then the lock on the destination.
\<close>

lemma validate_OUT: "reference t = r @ ''-OUT'' \<Longrightarrow> validate t \<noteq> []"
  by (simp add: validate_def suffix_OUT_invalid)

lemma callback_after_locks:
  assumes l1: "lockForUpdate (from_account_id td) (Some c) s0 = (Inr (Some fa), s1)"
    and l2: "lockForUpdate (to_account_id td) (Some c) s1 = (Inr (Some ta), s2)"
  shows "\<exists>err s3. processTransfer_callback e td c s0 = (Inl err, s3) \<and>
           err \<noteq> SourceAccountNotFound \<and> err \<noteq> DestinationAccountNotFound \<and>
           lock_log s3 = lock_log s2 \<and> account_projections s3 = account_projections s2 \<and>
           transactions s3 = transactions s2 \<and> idempotency_keys s3 = idempotency_keys s2 \<and>
           txn_id_seq s3 = txn_id_seq s2"
  by (auto simp: processTransfer_callback_def l1 l2 isActive_def canDebit_def canCredit_def
        allowsOverdraft_def Let_def createMultiple_first_invalid validate_OUT)

lemma callback_result:
  obtains err L s3 where
    "processTransfer_callback e td c s0 = (Inl err, s3)"
    "err \<noteq> SourceAccountNotFound" "err \<noteq> DestinationAccountNotFound"
    "account_projections s0 (from_account_id td) = None \<or>
     account_projections s0 (to_account_id td) = None \<longrightarrow> err = AccountProjectionNotFound"
    "L = (case account_projections s0 (from_account_id td) of
            None \<Rightarrow> []
          | Some fa \<Rightarrow>
              (case account_projections s0 (to_account_id td) of
                 None \<Rightarrow> [from_account_id td]
               | Some ta \<Rightarrow> [from_account_id td, to_account_id td]))"
    "lock_log s3 = lock_log s0 @ L"
    "account_projections s3 = account_projections s0"
    "transactions s3 = transactions s0"
    "idempotency_keys s3 = idempotency_keys s0"
    "txn_id_seq s3 = txn_id_seq s0"
proof -
  obtain r1 s1 where l1: "lockForUpdate (from_account_id td) (Some c) s0 = (r1, s1)"
    by (cases "lockForUpdate (from_account_id td) (Some c) s0")
  note t1 = lockForUpdate_tables [of "from_account_id td" "Some c" s0]
  show ?thesis
  proof (cases rule: lockForUpdate_cases [of s0 "from_account_id td" c])
    case missing
    with l1 have "processTransfer_callback e td c s0 = (Inl AccountProjectionNotFound, s1)"
      by (simp add: processTransfer_callback_def)
    with missing l1 t1 show ?thesis
      by (intro that [of AccountProjectionNotFound s1 "[]"]) simp_all
  next
    case (locked fa)
    with l1 have r1: "r1 = Inr (Some fa)" and log1: "lock_log s1 = lock_log s0 @ [from_account_id td]"
      by simp_all
    from l1 t1 have tab1: "account_projections s1 = account_projections s0"
      "transactions s1 = transactions s0" "idempotency_keys s1 = idempotency_keys s0"
      "txn_id_seq s1 = txn_id_seq s0"
      by simp_all
    from locked(1) obtain fa0 where fa0: "account_projections s0 (from_account_id td) = Some fa0"
      by blast
    obtain r2 s2 where l2: "lockForUpdate (to_account_id td) (Some c) s1 = (r2, s2)"
      by (cases "lockForUpdate (to_account_id td) (Some c) s1")
    note t2 = lockForUpdate_tables [of "to_account_id td" "Some c" s1]
    show ?thesis
    proof (cases rule: lockForUpdate_cases [of s1 "to_account_id td" c])
      case missing
      with l1 r1 l2 have "processTransfer_callback e td c s0 = (Inl AccountProjectionNotFound, s2)"
        by (simp add: processTransfer_callback_def)
      with missing l2 t2 tab1 log1 fa0 show ?thesis
        by (intro that [of AccountProjectionNotFound s2 "[from_account_id td]"]) simp_all
    next
      case (locked ta)
      with l2 have r2: "r2 = Inr (Some ta)"
        and log2: "lock_log s2 = lock_log s1 @ [to_account_id td]"
        by simp_all
      from locked(1) tab1 obtain ta0 where
        ta0: "account_projections s0 (to_account_id td) = Some ta0"
        by auto
      from callback_after_locks [of td c s0 fa s1 ta s2 e] l1 r1 l2 r2
      obtain err s3 where c3: "processTransfer_callback e td c s0 = (Inl err, s3)"
        "err \<noteq> SourceAccountNotFound" "err \<noteq> DestinationAccountNotFound"
        "lock_log s3 = lock_log s2" "account_projections s3 = account_projections s2"
        "transactions s3 = transactions s2" "idempotency_keys s3 = idempotency_keys s2"
        "txn_id_seq s3 = txn_id_seq s2"
        by auto
      with l2 t2 tab1 log1 log2 fa0 ta0 show ?thesis
        by (intro that [of err s3 "[from_account_id td, to_account_id td]"]) simp_all
    qed
  qed
qed

lemma callback_outcome:
  obtains err L s' where
    "db_transaction (processTransfer_callback e td) s = (Inl err, s')"
    "err \<noteq> SourceAccountNotFound" "err \<noteq> DestinationAccountNotFound"
    "account_projections s (from_account_id td) = None \<or>
     account_projections s (to_account_id td) = None \<longrightarrow> err = AccountProjectionNotFound"
    "L = (case account_projections s (from_account_id td) of
            None \<Rightarrow> []
          | Some fa \<Rightarrow>
              (case account_projections s (to_account_id td) of
                 None \<Rightarrow> [from_account_id td]
               | Some ta \<Rightarrow> [from_account_id td, to_account_id td]))"
    "lock_log s' = lock_log s @ L"
    "account_projections s' = account_projections s"
    "transactions s' = transactions s"
    "idempotency_keys s' = idempotency_keys s"
    "txn_id_seq s' = txn_id_seq s"
proof -
  let ?s0 = "s\<lparr>clients := Suc (clients s),
               statement_log := statement_log s @ [(clients s, BEGIN)]\<rparr>"
  show ?thesis
  proof (rule callback_result [of e td "clients s" ?s0])
    fix err L s3
    assume c: "processTransfer_callback e td (clients s) ?s0 = (Inl err, s3)"
      "err \<noteq> SourceAccountNotFound" "err \<noteq> DestinationAccountNotFound"
      "account_projections ?s0 (from_account_id td) = None \<or>
       account_projections ?s0 (to_account_id td) = None \<longrightarrow> err = AccountProjectionNotFound"
      "L = (case account_projections ?s0 (from_account_id td) of
            None \<Rightarrow> []
          | Some fa \<Rightarrow>
              (case account_projections ?s0 (to_account_id td) of
                 None \<Rightarrow> [from_account_id td]
               | Some ta \<Rightarrow> [from_account_id td, to_account_id td]))"
      "lock_log s3 = lock_log ?s0 @ L"
      "account_projections s3 = account_projections ?s0"
      "transactions s3 = transactions ?s0"
      "idempotency_keys s3 = idempotency_keys ?s0"
      "txn_id_seq s3 = txn_id_seq ?s0"
    from c(1) have "db_transaction (processTransfer_callback e td) s =
        (Inl err, rollback_unit (clients s) s3)"
      by (simp add: db_transaction_def Let_def)
    with c show ?thesis
      by (intro that [of err "rollback_unit (clients s) s3" L])
         (simp_all add: rollback_unit_def cong: option.case_cong)
  qed
qed


lemma processTransfer_idempotency_eq:
  "processTransfer_idempotency e k td s =
     (case idempotency_keys s k of
        None \<Rightarrow>
          if validate_key k \<noteq> [] then (Throw (ValidationFailed (validate_key k)), s)
          else (Continue,
                s\<lparr>idempotency_keys := (idempotency_keys s)
                     (k \<mapsto> \<lparr>key_txn_id = None, request_body = Some td, response_body = None,
                             expires_at = createExpiryDate e\<rparr>)\<rparr>)
      | Some row \<Rightarrow>
          if response_body row \<noteq> None then (Throw SyntaxError, s)
          else if now e > expires_at row then (Throw IdempotencyKeyExpired, s)
          else if key_txn_id row \<noteq> None then (ReturnStored None, s)
          else (Continue, s))"
  by (auto simp: processTransfer_idempotency_def checkKey_def create_key_def Let_def
      split: option.splits)

text \<open>
  The outcome of \<^verbatim>\<open>processTransfer\<close>, by cases: the idempotency block stops the
  call, or the call runs the transaction, which fails.
\<close>

lemma idempotency_stops:
  assumes "processTransfer_idempotency e k td s = (out, s1)" and "out \<noteq> Continue"
  shows "s1 = s"
    and "\<And>err. out = Throw err \<Longrightarrow>
           err = IdempotencyKeyExpired \<or> err = SyntaxError \<or>
           err = ValidationFailed (validate_key k)"
  using assms
  by (auto simp: processTransfer_idempotency_eq split: option.splits if_splits)

lemma idempotency_continues:
  assumes "processTransfer_idempotency e k td s = (Continue, s1)"
  shows "account_projections s1 = account_projections s"
    and "transactions s1 = transactions s"
    and "txn_id_seq s1 = txn_id_seq s"
    and "lock_log s1 = lock_log s"
    and "(idempotency_keys s1)(k := None) = (idempotency_keys s)(k := None)"
  using assms
  by (auto simp: processTransfer_idempotency_eq split: option.splits if_splits)

lemma processTransfer_stopped:
  assumes "\<not> idempotency_passes e td k s"
  shows "snd (processTransfer e td k s) = s"
    and "fst (processTransfer e td k s) \<noteq> Inl SourceAccountNotFound"
    and "fst (processTransfer e td k s) \<noteq> Inl DestinationAccountNotFound"
proof -
  from assms obtain k' where k: "k = Some k'" "k' \<noteq> []"
    and nc: "fst (processTransfer_idempotency e k' td s) \<noteq> Continue"
    by (auto simp: idempotency_passes_def split: option.splits)
  obtain out s1 where o: "processTransfer_idempotency e k' td s = (out, s1)"
    by (cases "processTransfer_idempotency e k' td s")
  with nc have "out \<noteq> Continue" by simp
  from idempotency_stops [OF o this] have s1: "s1 = s"
    and thr: "\<And>err. out = Throw err \<Longrightarrow>
           err = IdempotencyKeyExpired \<or> err = SyntaxError \<or>
           err = ValidationFailed (validate_key k')"
    by blast+
  show "snd (processTransfer e td k s) = s"
    using k o s1 \<open>out \<noteq> Continue\<close> by (cases out) (simp_all add: processTransfer_def)
  show "fst (processTransfer e td k s) \<noteq> Inl SourceAccountNotFound"
    using k o thr \<open>out \<noteq> Continue\<close> by (cases out) (auto simp: processTransfer_def)
  show "fst (processTransfer e td k s) \<noteq> Inl DestinationAccountNotFound"
    using k o thr \<open>out \<noteq> Continue\<close> by (cases out) (auto simp: processTransfer_def)
qed

lemma processTransfer_ran:
  assumes "idempotency_passes e td k s"
  obtains err L where
    "fst (processTransfer e td k s) = Inl err"
    "err \<noteq> SourceAccountNotFound" "err \<noteq> DestinationAccountNotFound"
    "account_projections s (from_account_id td) = None \<or>
     account_projections s (to_account_id td) = None \<longrightarrow> err = AccountProjectionNotFound"
    "L = (case account_projections s (from_account_id td) of
            None \<Rightarrow> []
          | Some fa \<Rightarrow>
              (case account_projections s (to_account_id td) of
                 None \<Rightarrow> [from_account_id td]
               | Some ta \<Rightarrow> [from_account_id td, to_account_id td]))"
    "lock_log (snd (processTransfer e td k s)) = lock_log s @ L"
    "account_projections (snd (processTransfer e td k s)) = account_projections s"
    "transactions (snd (processTransfer e td k s)) = transactions s"
    "txn_id_seq (snd (processTransfer e td k s)) = txn_id_seq s"
proof (cases "k = None \<or> k = Some []")
  case True
  obtain err L s2 where c:
    "db_transaction (processTransfer_callback e td) s = (Inl err, s2)"
    "err \<noteq> SourceAccountNotFound" "err \<noteq> DestinationAccountNotFound"
    "account_projections s (from_account_id td) = None \<or>
     account_projections s (to_account_id td) = None \<longrightarrow> err = AccountProjectionNotFound"
    "L = (case account_projections s (from_account_id td) of
            None \<Rightarrow> []
          | Some fa \<Rightarrow>
              (case account_projections s (to_account_id td) of
                 None \<Rightarrow> [from_account_id td]
               | Some ta \<Rightarrow> [from_account_id td, to_account_id td]))"
    "lock_log s2 = lock_log s @ L"
    "account_projections s2 = account_projections s"
    "transactions s2 = transactions s"
    "idempotency_keys s2 = idempotency_keys s"
    "txn_id_seq s2 = txn_id_seq s"
    by (rule callback_outcome [of e td s])
  from True c(1) have "processTransfer e td k s = (Inl err, s2)"
    by (auto simp: processTransfer_def)
  with c show ?thesis by (intro that [of err L]) simp_all
next
  case False
  with assms obtain k' where k: "k = Some k'" "k' \<noteq> []"
    and "fst (processTransfer_idempotency e k' td s) = Continue"
    by (auto simp: idempotency_passes_def split: option.splits)
  then obtain s1 where o: "processTransfer_idempotency e k' td s = (Continue, s1)"
    by (cases "processTransfer_idempotency e k' td s") simp
  note s1 = idempotency_continues [OF o]
  obtain err L s2 where c:
    "db_transaction (processTransfer_callback e td) s1 = (Inl err, s2)"
    "err \<noteq> SourceAccountNotFound" "err \<noteq> DestinationAccountNotFound"
    "account_projections s1 (from_account_id td) = None \<or>
     account_projections s1 (to_account_id td) = None \<longrightarrow> err = AccountProjectionNotFound"
    "L = (case account_projections s1 (from_account_id td) of
            None \<Rightarrow> []
          | Some fa \<Rightarrow>
              (case account_projections s1 (to_account_id td) of
                 None \<Rightarrow> [from_account_id td]
               | Some ta \<Rightarrow> [from_account_id td, to_account_id td]))"
    "lock_log s2 = lock_log s1 @ L"
    "account_projections s2 = account_projections s1"
    "transactions s2 = transactions s1"
    "idempotency_keys s2 = idempotency_keys s1"
    "txn_id_seq s2 = txn_id_seq s1"
    by (rule callback_outcome [of e td s1])
  from k o c(1) have "processTransfer e td k s = (Inl err, snd (delete_key k' s2))"
    by (simp add: processTransfer_def)
  with c s1 show ?thesis
    by (intro that [of err L]) (simp_all add: delete_key_def cong: option.case_cong)
qed

subsection \<open>The generator on a full draw\<close>

text \<open>
  When the clock gives a date of four, two and two digits and the draw prints with at
  least six base-36 digits, the reference generated has the reference format.
\<close>

lemma toUpperCase_base36:
  "c \<in> set ''0123456789abcdefghijklmnopqrstuvwxyz'' \<Longrightarrow> isUpperAlnum (toUpperCase_char c)"
  by (auto simp: isUpperAlnum_def toUpperCase_char_def)

lemma generateReference_valid:
  assumes date: "take 10 isoStr = [y1, y2, y3, y4, CHR ''-'', m1, m2, CHR ''-'', d1, d2]"
    and digits: "list_all isDigit [y1, y2, y3, y4, m1, m2, d1, d2]"
    and len: "8 \<le> length rnd"
    and base36: "list_all (\<lambda>c. c \<in> set ''0123456789abcdefghijklmnopqrstuvwxyz'')
                   (take 6 (drop 2 rnd))"
  shows "isValidReference (generateReference isoStr rnd)"
proof -
  have nodash: "\<And>c. isDigit c \<Longrightarrow> c \<noteq> CHR ''-''"
    by (auto simp: isDigit_def)
  from digits nodash
  have d: "filter (\<lambda>c. c \<noteq> CHR ''-'') (take 10 isoStr) = [y1, y2, y3, y4, m1, m2, d1, d2]"
    by (simp add: date)
  obtain r where r: "r = map toUpperCase_char (take 6 (drop 2 rnd))" by simp
  from len have rl: "length r = 6" by (simp add: r)
  from base36 have ru: "list_all isUpperAlnum r"
    by (simp add: r list_all_iff toUpperCase_base36)
  have "generateReference isoStr rnd =
      ''REF'' @ [y1, y2, y3, y4, m1, m2, d1, d2] @ ''-'' @ r"
    by (simp add: generateReference_def Let_def d r)
  with digits rl ru show ?thesis
    by (simp add: isValidReference_def)
qed

subsection \<open>What a transfer changes\<close>

lemma processTransfer_lock_log:
  "lock_log (snd (processTransfer e td k s)) =
     (if \<not> idempotency_passes e td k s then lock_log s
      else lock_log s @
        (case account_projections s (from_account_id td) of
           None \<Rightarrow> []
         | Some fa \<Rightarrow>
             (case account_projections s (to_account_id td) of
                None \<Rightarrow> [from_account_id td]
              | Some ta \<Rightarrow> [from_account_id td, to_account_id td])))"
proof (cases "idempotency_passes e td k s")
  case True
  show ?thesis by (rule processTransfer_ran [OF True]) (simp add: True)
next
  case False
  then show ?thesis by (simp add: processTransfer_stopped)
qed

lemma processTransfer_tables:
  "account_projections (snd (processTransfer e td k s)) = account_projections s \<and>
   transactions (snd (processTransfer e td k s)) = transactions s"
proof (cases "idempotency_passes e td k s")
  case True
  show ?thesis by (rule processTransfer_ran [OF True]) (simp add: True)
next
  case False
  then show ?thesis by (simp add: processTransfer_stopped)
qed

lemma processTransfer_not_null_check:
  "fst (processTransfer e td k s) \<noteq> Inl SourceAccountNotFound \<and>
   fst (processTransfer e td k s) \<noteq> Inl DestinationAccountNotFound"
proof (cases "idempotency_passes e td k s")
  case True
  show ?thesis by (rule processTransfer_ran [OF True]) (simp add: True)
next
  case False
  then show ?thesis by (simp add: processTransfer_stopped)
qed

lemma processTransfer_missing_account:
  assumes "idempotency_passes e td k s"
    and "account_projections s (from_account_id td) = None \<or>
         account_projections s (to_account_id td) = None"
  shows "fst (processTransfer e td k s) = Inl AccountProjectionNotFound"
  using assms(1)
proof (rule processTransfer_ran)
  fix err L
  assume "fst (processTransfer e td k s) = Inl err"
    and "account_projections s (from_account_id td) = None \<or>
         account_projections s (to_account_id td) = None \<longrightarrow> err = AccountProjectionNotFound"
  with assms(2) show ?thesis by simp
qed

lemma processTransfer_callback_not_null_check:
  "fst (processTransfer_callback e td c s) \<noteq> Inl SourceAccountNotFound \<and>
   fst (processTransfer_callback e td c s) \<noteq> Inl DestinationAccountNotFound"
  by (rule callback_result [of e td c s]) simp

subsection \<open>Stored keys\<close>

text \<open>
  What \<^verbatim>\<open>processTransfer\<close> does with a key that has a record: a record that holds a
  response makes \<^verbatim>\<open>checkKey\<close> throw, whatever else it holds; of the others, the expired
  one is refused.
\<close>

lemma stored_response_throws:
  "k \<noteq> [] \<Longrightarrow> idempotency_keys s k = Some row \<Longrightarrow> response_body row \<noteq> None \<Longrightarrow>
   processTransfer e td (Some k) s = (Inl SyntaxError, s)"
  by (simp add: processTransfer_def processTransfer_idempotency_eq)

lemma expired_key_rejected:
  "k \<noteq> [] \<Longrightarrow> idempotency_keys s k = Some row \<Longrightarrow> expires_at row < now e \<Longrightarrow>
   processTransfer e td (Some k) s =
     (Inl (if response_body row \<noteq> None then SyntaxError else IdempotencyKeyExpired), s)"
  by (simp add: processTransfer_def processTransfer_idempotency_eq)

subsection \<open>A transfer never returns a result\<close>

lemma transfer_callback_always_fails:
  "\<exists>err. fst (processTransfer_callback e td c s) = Inl err"
  by (rule callback_result [of e td c s]) simp

lemma transfer_returns_no_result:
  "fst (processTransfer e td k s) \<noteq> Inr (Some r)"
proof (cases "idempotency_passes e td k s")
  case True
  show ?thesis by (rule processTransfer_ran [OF True]) simp
next
  case False
  then obtain k' where k: "k = Some k'" "k' \<noteq> []"
    and nc: "fst (processTransfer_idempotency e k' td s) \<noteq> Continue"
    by (auto simp: idempotency_passes_def split: option.splits)
  with nc show ?thesis
    by (auto simp: processTransfer_def processTransfer_idempotency_eq
             split: option.splits if_splits)
qed


subsection \<open>The statements of createMultiple\<close>


lemma client_insert_clients: "clients (snd (client_insert c t s)) = clients s"
  by (simp add: client_insert_def Let_def split: prod.splits sum.splits)



section \<open>The claims\<close>

lemmas example_defs = account_1_def account_2_def account_3_def example_db_def example_env_def
  example_transfer_def retry_env_def reverse_transfer_def missing_transfer_def in_flight_key_def
  in_flight_db_def expired_key_def expired_db_def earlier_deposit_def collision_db_def
  fresh_db_def

lemmas transfer_eval = processTransfer_def processTransfer_idempotency_eq db_transaction_def
  rollback_unit_def processTransfer_callback_def lockForUpdate_def session_view_def
  pending_rows_def isActive_def canDebit_def canCredit_def allowsOverdraft_def
  createMultiple_first_invalid validate_def suffix_OUT_invalid delete_key_def validate_key_def
  createExpiryDate_def Let_def

text \<open>
  Claim C1. A successful transfer writes two ledger entries, \<^verbatim>\<open>TRANSFER_OUT\<close> on the
  source and \<^verbatim>\<open>TRANSFER_IN\<close> on the destination, with the references
  \<^verbatim>\<open>ref-OUT\<close> and \<^verbatim>\<open>ref-IN\<close>, and both pass the reference check of the ledger.
  The code builds the two entries so, but no suffixed reference passes the check
  (\<open>suffix_OUT_invalid\<close>, \<open>suffix_IN_invalid\<close>): the transfer of 100.00 from account 1
  to account 3 is refused by \<^verbatim>\<open>Transaction.validate\<close> and the ledger stays empty.
\<close>

theorem transfer_rejected_by_reference_check:
  "fst (processTransfer example_env example_transfer None example_db) =
     Inl (ValidationFailed [InvalidReference]) \<and>
   transactions (snd (processTransfer example_env example_transfer None example_db)) = []"
proof -
  have "fst (processTransfer example_env example_transfer None example_db) =
     Inl (ValidationFailed [InvalidReference])"
    by (simp add: transfer_eval example_defs)
  moreover have "transactions (snd (processTransfer example_env example_transfer None example_db)) = []"
    by (simp add: processTransfer_tables) (simp add: example_db_def)
  ultimately show ?thesis by simp
qed


text \<open>
  Claim C3. A transfer whose key has a stored result returns that result and runs
  nothing; hence the same request issued twice with key \<^verbatim>\<open>k1\<close> returns the same
  result twice and leaves two ledger entries. In the code the first call fails on the
  reference check and deletes the key, the second call does the same, and the ledger
  stays empty. A stored result is not returned either: \<^verbatim>\<open>checkKey\<close> throws on every
  record that holds one (\<open>stored_response_throws\<close>), and no call of
  \<^verbatim>\<open>processTransfer\<close> returns a result (\<open>transfer_returns_no_result\<close>).
\<close>

theorem retried_transfer_fails_twice:
  "fst (processTransfer example_env example_transfer (Some ''k1'') example_db) =
     Inl (ValidationFailed [InvalidReference]) \<and>
   idempotency_keys (snd (processTransfer example_env example_transfer (Some ''k1'') example_db))
     ''k1'' = None \<and>
   fst (processTransfer retry_env example_transfer (Some ''k1'')
          (snd (processTransfer example_env example_transfer (Some ''k1'') example_db))) =
     Inl (ValidationFailed [InvalidReference]) \<and>
   transactions (snd (processTransfer retry_env example_transfer (Some ''k1'')
          (snd (processTransfer example_env example_transfer (Some ''k1'') example_db)))) = []"
proof -
  let ?s1 = "example_db\<lparr>lock_log := [1, 3], clients := 2,
     statement_log := [(0, BEGIN), (0, SELECT_FOR_UPDATE 1), (0, SELECT_FOR_UPDATE 3),
                       (1, BEGIN), (1, ROLLBACK), (0, ROLLBACK)]\<rparr>"
  have first: "processTransfer example_env example_transfer (Some ''k1'') example_db =
      (Inl (ValidationFailed [InvalidReference]), ?s1)"
    by (simp add: transfer_eval example_defs)
  have second: "fst (processTransfer retry_env example_transfer (Some ''k1'') ?s1) =
      Inl (ValidationFailed [InvalidReference])"
    by (simp add: transfer_eval example_defs)
  have "transactions (snd (processTransfer retry_env example_transfer (Some ''k1'') ?s1)) = []"
    by (simp add: processTransfer_tables) (simp add: example_db_def)
  with first second show ?thesis by (simp add: example_db_def)
qed

text \<open>
  Claim C4. A transfer whose key is in flight (stored, not expired, no result yet) is
  rejected as a duplicate and the business logic does not run again. In the code the
  idempotency block has no branch for this case and falls through: with the in-flight
  key \<^verbatim>\<open>test-transfer-001\<close> the transfer takes both locks, runs to the reference
  check, fails there, and the \<^verbatim>\<open>catch\<close> block deletes the record of the request that
  was in flight.
\<close>

theorem in_flight_key_runs_transfer_again:
  "processTransfer_idempotency example_env ''test-transfer-001'' example_transfer in_flight_db =
     (Continue, in_flight_db) \<and>
   fst (processTransfer example_env example_transfer (Some ''test-transfer-001'') in_flight_db) =
     Inl (ValidationFailed [InvalidReference]) \<and>
   lock_log (snd (processTransfer example_env example_transfer (Some ''test-transfer-001'')
     in_flight_db)) = [1, 3] \<and>
   idempotency_keys (snd (processTransfer example_env example_transfer
     (Some ''test-transfer-001'') in_flight_db)) ''test-transfer-001'' = None"
  by (simp add: transfer_eval example_defs)

text \<open>
  Claim C5. A transfer whose key has an expired record treats the key as absent: it
  writes a fresh record and runs the transfer. In the code \<^verbatim>\<open>processTransfer\<close> throws
  \<^verbatim>\<open>Idempotency key has expired\<close> before anything else happens: with the expired key
  \<^verbatim>\<open>k1\<close> the call fails with that error, the expired record is still the stored
  one and no lock is taken.
\<close>

theorem expired_key_counterexample:
  "fst (processTransfer example_env example_transfer (Some ''k1'') expired_db) =
     Inl IdempotencyKeyExpired \<and>
   idempotency_keys (snd (processTransfer example_env example_transfer (Some ''k1'') expired_db))
     ''k1'' = Some expired_key \<and>
   lock_log (snd (processTransfer example_env example_transfer (Some ''k1'') expired_db)) = []"
  by (simp add: transfer_eval example_defs)

text \<open>
  Claim C5, amended. A transfer whose key has an expired record is rejected, and the
  database is left as it was: the record is not replaced and the transfer does not
  run. When the expired record holds no stored result, the error is
  \<^verbatim>\<open>Idempotency key has expired\<close>.
\<close>

theorem expired_key_is_rejected:
  "k \<noteq> [] \<and> idempotency_keys s k = Some row \<and> expires_at row < now e \<longrightarrow>
   (\<exists>err. processTransfer e td (Some k) s = (Inl err, s)) \<and>
   (response_body row = None \<longrightarrow>
    processTransfer e td (Some k) s = (Inl IdempotencyKeyExpired, s))"
  using expired_key_rejected [of k s row e td] by simp

theorem expired_key_is_rejected_witness:
  "''k1'' \<noteq> [] \<and> idempotency_keys expired_db ''k1'' = Some expired_key \<and>
   expires_at expired_key < now example_env \<and> response_body expired_key = None \<and>
   processTransfer example_env example_transfer (Some ''k1'') expired_db =
     (Inl IdempotencyKeyExpired, expired_db)"
proof -
  have h: "''k1'' \<noteq> [] \<and> idempotency_keys expired_db ''k1'' = Some expired_key \<and>
      expires_at expired_key < now example_env \<and> response_body expired_key = None"
    by (simp add: example_defs)
  with expired_key_is_rejected [of "''k1''" expired_db expired_key example_env example_transfer]
  show ?thesis by fast
qed




text \<open>
  Claim C7. The two row locks of a transfer are taken in ascending order of account
  id, whatever the direction of the transfer. In the code the source is locked first
  and the destination second: the transfer from account 3 to account 1 locks 3, then 1.
\<close>

theorem locks_not_ascending:
  "lock_log (snd (processTransfer example_env reverse_transfer None example_db)) = [3, 1] \<and>
   \<not> sorted (lock_log (snd (processTransfer example_env reverse_transfer None example_db)))"
proof -
  have "lock_log (snd (processTransfer example_env reverse_transfer None example_db)) = [3, 1]"
    by (simp add: transfer_eval example_defs)
  then show ?thesis by simp
qed

text \<open>
  Claim C7, amended. The two row locks of a transfer are taken in the order of the
  request: the source account first, the destination account second, whatever their
  ids. A transfer that gets past its idempotency block and finds both accounts takes
  exactly these two locks, in this order; every other transfer takes the lock on the
  source alone or no lock.
\<close>

theorem locks_source_then_destination:
  "lock_log (snd (processTransfer e td k s)) \<in>
     {lock_log s, lock_log s @ [from_account_id td],
      lock_log s @ [from_account_id td, to_account_id td]} \<and>
   (idempotency_passes e td k s \<and> account_projections s (from_account_id td) \<noteq> None \<and>
    account_projections s (to_account_id td) \<noteq> None \<longrightarrow>
    lock_log (snd (processTransfer e td k s)) =
      lock_log s @ [from_account_id td, to_account_id td])"
  by (auto simp: processTransfer_lock_log split: option.splits)

theorem locks_source_then_destination_witness:
  "idempotency_passes example_env reverse_transfer None example_db \<and>
   account_projections example_db (from_account_id reverse_transfer) \<noteq> None \<and>
   account_projections example_db (to_account_id reverse_transfer) \<noteq> None \<and>
   lock_log (snd (processTransfer example_env reverse_transfer None example_db)) =
     lock_log example_db @ [3, 1]"
proof -
  have h: "idempotency_passes example_env reverse_transfer None example_db \<and>
      account_projections example_db (from_account_id reverse_transfer) \<noteq> None \<and>
      account_projections example_db (to_account_id reverse_transfer) \<noteq> None"
    by (simp add: idempotency_passes_def example_defs)
  have "from_account_id reverse_transfer = 3" "to_account_id reverse_transfer = 1"
    by (simp_all add: reverse_transfer_def)
  with h locks_source_then_destination [of example_env reverse_transfer None example_db]
  show ?thesis by simp
qed

text \<open>
  Claim C8. After every deposit, withdrawal and transfer, whether it succeeds or
  fails, the balance of every account equals the signed sum of its ledger entries
  (deposits and incoming transfers added, withdrawals and outgoing transfers
  subtracted), provided it did before; the entries already in the ledger are still
  there, and every new entry carries in \<^verbatim>\<open>balance_after\<close> the balance its account has
  once the entry is applied.
\<close>

theorem core_operations_keep_balance_equal_to_ledger:
  assumes inv: "balance_matches_ledger s"
  shows "balance_matches_ledger (snd (processDeposit e a amt c d s)) \<and>
         balance_matches_ledger (snd (processWithdrawal e a amt c d s)) \<and>
         balance_matches_ledger (snd (processTransfer e td k s)) \<and>
         entries_record_balance s (snd (processDeposit e a amt c d s)) \<and>
         entries_record_balance s (snd (processWithdrawal e a amt c d s)) \<and>
         entries_record_balance s (snd (processTransfer e td k s))"
proof (intro conjI)
  show "balance_matches_ledger (snd (processDeposit e a amt c d s))"
    using inv by (rule processDeposit_invariant)
  show "balance_matches_ledger (snd (processWithdrawal e a amt c d s))"
    using inv by (rule processWithdrawal_invariant)
  show "balance_matches_ledger (snd (processTransfer e td k s))"
    using inv by (simp add: balance_matches_ledger_def processTransfer_tables)
  show "entries_record_balance s (snd (processTransfer e td k s))"
    by (simp add: entries_record_balance_def processTransfer_tables)
  show "entries_record_balance s (snd (processDeposit e a amt c d s))"
  proof (cases "processDeposit e a amt c d s")
    case (Pair r s')
    show ?thesis
    proof (cases r)
      case (Inl err)
      with Pair processDeposit_Inl [of e a amt c d s err s']
      show ?thesis by (auto simp: entries_record_balance_def)
    next
      case (Inr res)
      with Pair processDeposit_Inr [of e a amt c d s res s']
      show ?thesis by (auto simp: entries_record_balance_def)
    qed
  qed
  show "entries_record_balance s (snd (processWithdrawal e a amt c d s))"
  proof (cases "processWithdrawal e a amt c d s")
    case (Pair r s')
    show ?thesis
    proof (cases r)
      case (Inl err)
      with Pair processWithdrawal_Inl [of e a amt c d s err s']
      show ?thesis by (auto simp: entries_record_balance_def)
    next
      case (Inr res)
      with Pair processWithdrawal_Inr [of e a amt c d s res s']
      show ?thesis by (auto simp: entries_record_balance_def)
    qed
  qed
qed

theorem core_operations_keep_balance_equal_to_ledger_witness:
  "balance_matches_ledger fresh_db \<and>
   length (transactions (snd (processDeposit example_env 1 5000 None None fresh_db))) = 1 \<and>
   balance_matches_ledger (snd (processDeposit example_env 1 5000 None None fresh_db)) \<and>
   entries_record_balance fresh_db (snd (processDeposit example_env 1 5000 None None fresh_db))"
proof -
  have h: "balance_matches_ledger fresh_db"
    by (simp add: balance_matches_ledger_def ledger_sum_def fresh_db_def account_1_def
          account_3_def)
  have "length (transactions (snd (processDeposit example_env 1 5000 None None fresh_db))) = 1"
    by (simp add: processDeposit_def findById_def isActive_def canCredit_def
        create_def validate_def insert_transaction_def update_account_balance_def Let_def
        trigger_balance_def fit_varchar_def fit_varchar_option_def generateReference_def toUpperCase_char_def isValidReference_def isDigit_def
        isUpperAlnum_def fits_decimal_15_2_def example_defs)
  with h core_operations_keep_balance_equal_to_ledger
         [OF h, of example_env 1 5000 None None example_transfer None]
  show ?thesis by simp
qed

text \<open>
  Claim C9. Every reference generated is \<^verbatim>\<open>REF\<close>, eight digits, a dash and six
  characters of \<^verbatim>\<open>[A-Z0-9]\<close>, whatever the random draw. In the code the random part is
  \<^verbatim>\<open>substring(2, 8)\<close> of the draw printed in base 36, which is shorter than six
  characters when the draw prints with fewer than six digits: the draw 0.5 prints as
  \<^verbatim>\<open>0.i\<close> and gives the reference \<^verbatim>\<open>REF20250827-I\<close>, which the reference check
  refuses.
\<close>

theorem generateReference_short_draw:
  "generateReference ''2025-08-27T10:15:30.000Z'' ''0.i'' = ''REF20250827-I'' \<and>
   \<not> isValidReference (generateReference ''2025-08-27T10:15:30.000Z'' ''0.i'')"
  by (simp add: generateReference_def toUpperCase_char_def isValidReference_def)

text \<open>
  Claim C10. In \<^verbatim>\<open>processTransfer\<close> the two null checks that follow the locks never
  fire: \<^verbatim>\<open>lockForUpdate\<close> never returns null, no call of \<^verbatim>\<open>processTransfer\<close> ends
  with \<^verbatim>\<open>Source account not found\<close> or \<^verbatim>\<open>Destination account not found\<close>, and a
  transfer that gets past its idempotency block and misses one of its accounts ends with
  the error of the lock, \<^verbatim>\<open>Account projection not found\<close>.
\<close>

theorem null_checks_unreachable:
  "fst (lockForUpdate acct cl s) \<noteq> Inr None \<and>
   fst (processTransfer_callback e td c s) \<noteq> Inl SourceAccountNotFound \<and>
   fst (processTransfer_callback e td c s) \<noteq> Inl DestinationAccountNotFound \<and>
   fst (processTransfer e td k s) \<noteq> Inl SourceAccountNotFound \<and>
   fst (processTransfer e td k s) \<noteq> Inl DestinationAccountNotFound \<and>
   (idempotency_passes e td k s \<and>
    (account_projections s (from_account_id td) = None \<or>
     account_projections s (to_account_id td) = None) \<longrightarrow>
    fst (processTransfer e td k s) = Inl AccountProjectionNotFound)"
  using lockForUpdate_not_null [of acct cl s]
    processTransfer_callback_not_null_check [of e td c s]
    processTransfer_not_null_check [of e td k s] processTransfer_missing_account [of e td k s]
  by blast

theorem null_checks_unreachable_witness:
  "idempotency_passes example_env missing_transfer None example_db \<and>
   account_projections example_db (from_account_id missing_transfer) = None \<and>
   fst (processTransfer example_env missing_transfer None example_db) =
     Inl AccountProjectionNotFound"
proof -
  have h: "idempotency_passes example_env missing_transfer None example_db \<and>
      account_projections example_db (from_account_id missing_transfer) = None"
    by (simp add: idempotency_passes_def example_defs)
  with null_checks_unreachable
         [of 99 None example_db example_env missing_transfer 0 None]
  show ?thesis by blast
qed

end
